theory Spec2Isabelle
  imports Main "HOL-Library.Sublist"
begin

section \<open>Byte strings and the Python string operations the server uses\<close>

text \<open>
  The server decodes what it receives as ISO-8859-1, so every byte is one character and
  a request is a \<^typ>\<open>string\<close> (a list of 8-bit characters). The operations below are
  the ones of \<^verbatim>\<open>str\<close> and \<^verbatim>\<open>bytes\<close> that \<^verbatim>\<open>server.py\<close> calls.
\<close>

abbreviation CR :: char where "CR \<equiv> CHR 0x0D"
abbreviation LF :: char where "LF \<equiv> CHR 0x0A"
abbreviation DQ :: char where "DQ \<equiv> CHR 0x22"
abbreviation CRLF :: string where "CRLF \<equiv> [CR, LF]"

text \<open>\<^verbatim>\<open>sub in s\<close>: \<open>sub\<close> occurs in \<open>s\<close> as a contiguous run.\<close>

fun contains :: "string \<Rightarrow> string \<Rightarrow> bool" where
  "contains sub [] = (sub = [])"
| "contains sub (c # cs) = (prefix sub (c # cs) \<or> contains sub cs)"

text \<open>\<^verbatim>\<open>s.split(sep, 1)\<close> when \<open>sep\<close> occurs in \<open>s\<close>: the text before the first
  occurrence and the text after it; \<open>None\<close> when \<open>sep\<close> does not occur.\<close>

fun split_once :: "string \<Rightarrow> string \<Rightarrow> (string \<times> string) option" where
  "split_once sep [] = (if sep = [] then Some ([], []) else None)"
| "split_once sep (c # cs) =
     (if prefix sep (c # cs) then Some ([], drop (length sep) (c # cs))
      else (case split_once sep cs of
              None \<Rightarrow> None
            | Some (a, b) \<Rightarrow> Some (c # a, b)))"

text \<open>\<^verbatim>\<open>text.split("\r\n")\<close>: all the pieces between successive line ends; the
  result always has at least one piece.\<close>

fun split_crlf :: "string \<Rightarrow> string list" where
  "split_crlf [] = [[]]"
| "split_crlf [c] = [[c]]"
| "split_crlf (c # d # cs) =
     (if c = CR \<and> d = LF then [] # split_crlf cs
      else (case split_crlf (d # cs) of
              [] \<Rightarrow> [[c]]
            | l # ls \<Rightarrow> (c # l) # ls))"

text \<open>\<^verbatim>\<open>str.isspace\<close> on the 256 characters an ISO-8859-1 decode can give:
  U+0009 to U+000D, U+001C to U+0020, U+0085 and U+00A0.\<close>

definition space_chars :: "char list" where
  "space_chars =
     [CHR 0x09, CHR 0x0A, CHR 0x0B, CHR 0x0C, CHR 0x0D,
      CHR 0x1C, CHR 0x1D, CHR 0x1E, CHR 0x1F, CHR 0x20, CHR 0x85, CHR 0xA0]"

definition is_space :: "char \<Rightarrow> bool" where
  "is_space c = (c \<in> set space_chars)"

text \<open>\<^verbatim>\<open>s.split()\<close>: the maximal runs of non-space characters.\<close>

fun split_ws_from :: "string \<Rightarrow> string \<Rightarrow> string list" where
  "split_ws_from cur [] = (if cur = [] then [] else [rev cur])"
| "split_ws_from cur (c # cs) =
     (if is_space c
      then (if cur = [] then split_ws_from [] cs else rev cur # split_ws_from [] cs)
      else split_ws_from (c # cur) cs)"

definition split_ws :: "string \<Rightarrow> string list" where
  "split_ws s = split_ws_from [] s"

text \<open>\<^verbatim>\<open>s.strip()\<close> and \<^verbatim>\<open>s.lstrip("/")\<close>.\<close>

definition strip :: "string \<Rightarrow> string" where
  "strip s = rev (dropWhile is_space (rev (dropWhile is_space s)))"

definition lstrip_slash :: "string \<Rightarrow> string" where
  "lstrip_slash s = dropWhile (\<lambda>c. c = CHR ''/'') s"

text \<open>\<^verbatim>\<open>s.lower()\<close>: the ASCII capitals and the ISO-8859-1 capitals (U+00C0 to
  U+00DE without the multiplication sign U+00D7) move up by 32.\<close>

definition upper_chars :: "char list" where
  "upper_chars =
     ''ABCDEFGHIJKLMNOPQRSTUVWXYZ'' @
     [CHR 0xC0, CHR 0xC1, CHR 0xC2, CHR 0xC3, CHR 0xC4, CHR 0xC5, CHR 0xC6, CHR 0xC7,
      CHR 0xC8, CHR 0xC9, CHR 0xCA, CHR 0xCB, CHR 0xCC, CHR 0xCD, CHR 0xCE, CHR 0xCF,
      CHR 0xD0, CHR 0xD1, CHR 0xD2, CHR 0xD3, CHR 0xD4, CHR 0xD5, CHR 0xD6,
      CHR 0xD8, CHR 0xD9, CHR 0xDA, CHR 0xDB, CHR 0xDC, CHR 0xDD, CHR 0xDE]"

definition lower_chars :: "char list" where
  "lower_chars =
     ''abcdefghijklmnopqrstuvwxyz'' @
     [CHR 0xE0, CHR 0xE1, CHR 0xE2, CHR 0xE3, CHR 0xE4, CHR 0xE5, CHR 0xE6, CHR 0xE7,
      CHR 0xE8, CHR 0xE9, CHR 0xEA, CHR 0xEB, CHR 0xEC, CHR 0xED, CHR 0xEE, CHR 0xEF,
      CHR 0xF0, CHR 0xF1, CHR 0xF2, CHR 0xF3, CHR 0xF4, CHR 0xF5, CHR 0xF6,
      CHR 0xF8, CHR 0xF9, CHR 0xFA, CHR 0xFB, CHR 0xFC, CHR 0xFD, CHR 0xFE]"

definition lower_char :: "char \<Rightarrow> char" where
  "lower_char c = (case map_of (zip upper_chars lower_chars) c of None \<Rightarrow> c | Some l \<Rightarrow> l)"

definition lower :: "string \<Rightarrow> string" where
  "lower s = map lower_char s"

text \<open>\<^verbatim>\<open>str(n)\<close> for a length or a port number.\<close>

definition digit_char :: "nat \<Rightarrow> char" where
  "digit_char d = ''0123456789'' ! d"

fun str_nat :: "nat \<Rightarrow> string" where
  "str_nat n =
     (if n < 10 then [digit_char n]
      else str_nat (n div 10) @ [digit_char (n mod 10)])"

declare str_nat.simps [simp del]

text \<open>\<^verbatim>\<open>int(s)\<close> on a header value: surrounding white space, an optional sign, then
  decimal digits, single underscores allowed between digits. \<open>None\<close> stands for the
  \<^verbatim>\<open>ValueError\<close> Python raises on anything else.\<close>

definition digit_val :: "char \<Rightarrow> nat option" where
  "digit_val c = map_of (zip ''0123456789'' [0, 1, 2, 3, 4, 5, 6, 7, 8, 9]) c"

fun digits_from :: "nat \<Rightarrow> string \<Rightarrow> nat option" where
  "digits_from acc [] = Some acc"
| "digits_from acc (c # cs) =
     (case digit_val c of
        Some d \<Rightarrow> digits_from (10 * acc + d) cs
      | None \<Rightarrow>
          (if c = CHR ''_'' \<and> (case cs of [] \<Rightarrow> False | d # _ \<Rightarrow> digit_val d \<noteq> None)
           then digits_from acc cs else None))"

definition int_body :: "string \<Rightarrow> nat option" where
  "int_body s =
     (case s of
        [] \<Rightarrow> None
      | c # _ \<Rightarrow> (if digit_val c = None then None else digits_from 0 s))"

definition py_int :: "string \<Rightarrow> int option" where
  "py_int s =
     (case strip s of
        [] \<Rightarrow> None
      | c # cs \<Rightarrow>
          (if c = CHR ''-'' then map_option (\<lambda>n. - int n) (int_body cs)
           else if c = CHR ''+'' then map_option int (int_body cs)
           else map_option int (int_body (c # cs))))"

subsection \<open>Paths\<close>

text \<open>\<^verbatim>\<open>os.path.join(a, b)\<close>, \<^verbatim>\<open>os.path.basename\<close> and the extension part of
  \<^verbatim>\<open>os.path.splitext\<close> (POSIX): the extension starts at the last dot of the last
  component, unless only dots stand before it there.\<close>

definition path_join :: "string \<Rightarrow> string \<Rightarrow> string" where
  "path_join a b =
     (if prefix ''/'' b then b
      else if a = [] \<or> suffix ''/'' a then a @ b
      else a @ ''/'' @ b)"

definition basename :: "string \<Rightarrow> string" where
  "basename p = rev (takeWhile (\<lambda>c. c \<noteq> CHR ''/'') (rev p))"

definition splitext_ext :: "string \<Rightarrow> string" where
  "splitext_ext p =
     (let b = basename p;
          after = rev (takeWhile (\<lambda>c. c \<noteq> CHR ''.'') (rev b));
          stem = take (length b - length after - 1) b
      in if CHR ''.'' \<notin> set b then []
         else if list_all (\<lambda>c. c = CHR ''.'') stem then []
         else CHR ''.'' # after)"

section \<open>Configuration\<close>

definition HOST :: string where "HOST = ''127.0.0.1''"
definition PORT :: nat where "PORT = 8080"
definition CONN_TIMEOUT :: nat where "CONN_TIMEOUT = 30"
definition MAX_REQUESTS_PER_CONN :: nat where "MAX_REQUESTS_PER_CONN = 100"
definition MAX_HEADER_SIZE :: nat where "MAX_HEADER_SIZE = 8192"
definition RESOURCES_DIR :: string where "RESOURCES_DIR = ''resources''"
definition UPLOADS_DIR :: string where "UPLOADS_DIR = path_join RESOURCES_DIR ''uploads''"

section \<open>The world the server runs in\<close>

text \<open>
  The file system is what the \<^verbatim>\<open>os.path\<close> calls and \<^verbatim>\<open>open\<close> see: the
  canonicalisation \<^verbatim>\<open>os.path.realpath\<close> (which knows the working directory and
  the symbolic links), the directories, and the regular files with their contents.
\<close>

record filesystem =
  realpath :: "string \<Rightarrow> string"
  isdir :: "string \<Rightarrow> bool"
  files :: "string \<rightharpoonup> string"

definition path_exists :: "filesystem \<Rightarrow> string \<Rightarrow> bool" where
  "path_exists fs p = (isdir fs p \<or> files fs p \<noteq> None)"

text \<open>
  What the peer delivers on the socket, in order: segments of bytes and read timeouts.
  After the last event the peer has closed its side, and \<^verbatim>\<open>recv\<close> returns
  \<^verbatim>\<open>b""\<close> from then on.
\<close>

datatype event = Seg string | Timeout

datatype recvd = Got string | Timed_out

fun recv :: "nat \<Rightarrow> event list \<Rightarrow> recvd \<times> event list" where
  "recv n [] = (Got [], [])"
| "recv n (Timeout # es) = (Timed_out, es)"
| "recv n (Seg b # es) =
     (if b = [] then recv n es
      else if length b \<le> n then (Got b, es)
      else (Got (take n b), Seg (drop n b) # es))"

text \<open>What \<^verbatim>\<open>sendall\<close> has written: a response built by \<^verbatim>\<open>build_response\<close>,
  or one chunk of a streamed file.\<close>

record response =
  status :: nat
  reason :: string
  headers :: "(string \<times> string) list"
  body :: string

datatype sent = Resp response | Chunk string

definition build_response :: "nat \<Rightarrow> string \<Rightarrow> (string \<times> string) list \<Rightarrow> string \<Rightarrow> string" where
  "build_response st rs hs b =
     ''HTTP/1.1 '' @ str_nat st @ '' '' @ rs @ CRLF
       @ concat (map (\<lambda>(k, v). k @ '': '' @ v @ CRLF) hs)
       @ CRLF @ b"

fun wire :: "sent \<Rightarrow> string" where
  "wire (Resp r) = build_response (status r) (reason r) (headers r) (body r)"
| "wire (Chunk c) = c"

record world =
  fs :: filesystem
  inp :: "event list"
  out :: "sent list"
  closed :: bool

text \<open>
  The clock, the random generator and the JSON codec are outside the server:
  \<open>loads\<close> is \<^verbatim>\<open>json.loads(data.decode("utf-8"))\<close> with \<open>None\<close> for any exception
  it raises, \<open>dump\<close> is \<^verbatim>\<open>json.dump(_, indent=2)\<close>, and \<open>idle i\<close> is the time in
  seconds between the read of request number \<open>i\<close> and the idle check after it.
\<close>

record 'j env =
  http_date_now :: string
  utc_stamp :: string
  random_id :: string
  loads :: "string \<Rightarrow> 'j option"
  dump :: "'j \<Rightarrow> string"
  idle :: "nat \<Rightarrow> nat"

datatype exn = ValueError | SocketTimeout | FileNotFoundError

section \<open>Utilities\<close>

definition safe_path :: "filesystem \<Rightarrow> string \<Rightarrow> string \<Rightarrow> string option" where
  "safe_path f base path =
     (let target = realpath f (path_join base (lstrip_slash path))
      in if \<not> prefix (realpath f base) target then None else Some target)"

definition send :: "sent \<Rightarrow> world \<Rightarrow> world" where
  "send x w = w\<lparr>out := out w @ [x]\<rparr>"

definition error_response :: "'j env \<Rightarrow> nat \<Rightarrow> string \<Rightarrow> string \<Rightarrow> sent" where
  "error_response e st rs b =
     Resp \<lparr>status = st, reason = rs,
           headers = [(''Date'', http_date_now e), (''Connection'', ''close'')],
           body = b\<rparr>"

section \<open>Request handling\<close>

fun pending :: "event list \<Rightarrow> nat" where
  "pending [] = 0"
| "pending (Seg b # es) = Suc (length b + pending es)"
| "pending (Timeout # es) = Suc (pending es)"

lemma recv_pending:
  "recv n es = (Got c, es') \<Longrightarrow> c \<noteq> [] \<Longrightarrow> 0 < n \<Longrightarrow> pending es' < pending es"
proof (induction n es rule: recv.induct)
  case (1 n)
  then show ?case by simp
next
  case (2 n es)
  then show ?case by simp
next
  case (3 n b es)
  show ?case
  proof (cases "b = []")
    case True
    with 3 show ?thesis by simp
  next
    case False
    with 3 show ?thesis by (auto split: if_splits)
  qed
qed

function recv_headers_loop :: "string \<Rightarrow> event list \<Rightarrow> string \<times> event list" where
  "recv_headers_loop data es =
     (if \<not> contains (CRLF @ CRLF) data \<and> length data < MAX_HEADER_SIZE
      then (case recv 1024 es of
              (Timed_out, es') \<Rightarrow> (data, es')
            | (Got chunk, es') \<Rightarrow>
                (if chunk = [] then (data, es') else recv_headers_loop (data @ chunk) es'))
      else (data, es))"
  by pat_completeness auto
termination
  by (relation "measure (\<lambda>(data, es). pending es)") (auto dest!: recv_pending [OF sym])

declare recv_headers_loop.simps [simp del]

definition recv_headers :: "event list \<Rightarrow> string \<times> event list" where
  "recv_headers es = recv_headers_loop [] es"

text \<open>The header dictionary: a later line with the same key replaces an earlier one.\<close>

fun header_lines :: "string list \<Rightarrow> (string \<rightharpoonup> string) \<Rightarrow> (string \<rightharpoonup> string)" where
  "header_lines [] hs = hs"
| "header_lines (line # ls) hs =
     (case split_once '': '' line of
        None \<Rightarrow> header_lines ls hs
      | Some (k, v) \<Rightarrow> header_lines ls (hs(strip k \<mapsto> strip v)))"

definition parse_headers :: "string \<Rightarrow> string \<times> (string \<rightharpoonup> string)" where
  "parse_headers data =
     (case split_crlf data of
        [] \<Rightarrow> ([], Map.empty)
      | request_line # ls \<Rightarrow> (request_line, header_lines ls Map.empty))"

text \<open>\<^verbatim>\<open>headers.get(k, d)\<close>.\<close>

definition get_header :: "(string \<rightharpoonup> string) \<Rightarrow> string \<Rightarrow> string \<Rightarrow> string" where
  "get_header hs k d = (case hs k of None \<Rightarrow> d | Some v \<Rightarrow> v)"

section \<open>GET and HEAD\<close>

definition keep_alive_headers :: "bool \<Rightarrow> (string \<times> string) list" where
  "keep_alive_headers keep_alive =
     [(''Connection'', if keep_alive then ''keep-alive'' else ''close''),
      (''Keep-Alive'', if keep_alive then ''timeout=30, max=100'' else [])]"

text \<open>The successive results of \<^verbatim>\<open>f.read(n)\<close> up to the first empty one.\<close>

function chunks :: "nat \<Rightarrow> string \<Rightarrow> string list" where
  "chunks n s = (if s = [] \<or> n = 0 then [] else take n s # chunks n (drop n s))"
  by pat_completeness auto
termination
  by (relation "measure (\<lambda>(n, s). length s)") auto

declare chunks.simps [simp del]

text \<open>
  \<^verbatim>\<open>handle_get_head\<close> returns the world after its writes, or the exception that left
  it with the world at that point. Logging is not modelled, and \<^verbatim>\<open>sendall\<close> is
  taken to succeed.
\<close>

definition handle_get_head ::
  "'j env \<Rightarrow> world \<Rightarrow> string \<Rightarrow> bool \<Rightarrow> string \<Rightarrow> (exn \<times> world) + world" where
  "handle_get_head e w path0 keep_alive method =
     (let path = (if path0 = ''/'' then ''/index.html'' else path0)
      in case safe_path (fs w) RESOURCES_DIR path of
           None \<Rightarrow> Inr (send (error_response e 403 ''Forbidden'' ''403 Forbidden'') w)
         | Some filepath \<Rightarrow>
             if filepath = [] \<or> isdir (fs w) filepath
             then Inr (send (error_response e 403 ''Forbidden'' ''403 Forbidden'') w)
             else
               let ext = lower (splitext_ext filepath)
               in if ext \<notin> set [''.html'', ''.png'', ''.jpg'', ''.jpeg'', ''.txt'']
                  then Inr (send (error_response e 415 ''Unsupported Media Type''
                                    ''415 Unsupported Media Type'') w)
                  else if \<not> path_exists (fs w) filepath
                  then Inr (send (error_response e 404 ''Not Found'' ''404 Not Found'') w)
                  else if ext = ''.html''
                  then (case files (fs w) filepath of
                          None \<Rightarrow> Inl (FileNotFoundError, w)
                        | Some content \<Rightarrow>
                            Inr (send (Resp \<lparr>status = 200, reason = ''OK'',
                                   headers =
                                     [(''Date'', http_date_now e),
                                      (''Content-Type'', ''text/html; charset=utf-8''),
                                      (''Content-Length'', str_nat (length content))]
                                     @ keep_alive_headers keep_alive,
                                   body = (if method = ''GET'' then content else [])\<rparr>) w))
                  else if ext \<in> set [''.png'', ''.jpg'', ''.jpeg'', ''.txt'']
                  then (case files (fs w) filepath of
                          None \<Rightarrow> Inl (FileNotFoundError, w)
                        | Some content \<Rightarrow>
                            Inr (fold send (map Chunk (chunks 8192 content))
                                  (send (Resp \<lparr>status = 200, reason = ''OK'',
                                     headers =
                                       [(''Date'', http_date_now e),
                                        (''Content-Type'', ''application/octet-stream''),
                                        (''Content-Disposition'',
                                           ''attachment; filename='' @ [DQ] @ basename filepath @ [DQ]),
                                        (''Content-Length'', str_nat (length content))]
                                       @ keep_alive_headers keep_alive,
                                     body = []\<rparr>) w)))
                  else Inr w)"

section \<open>POST /upload\<close>

text \<open>
  The read loop of \<^verbatim>\<open>handle_post\<close>. A timeout of \<^verbatim>\<open>recv\<close> is not caught there and
  leaves the loop as an exception. Once the peer has closed, \<^verbatim>\<open>recv\<close> returns
  \<^verbatim>\<open>b""\<close> for ever and the loop does not end: the value is \<open>None\<close>.
\<close>

partial_function (option) recv_body ::
  "int \<Rightarrow> string \<Rightarrow> event list \<Rightarrow> ((exn + string) \<times> event list) option" where
  "recv_body content_length data es =
     (if int (length data) < content_length
      then (case recv 4096 es of
              (Timed_out, es') \<Rightarrow> Some (Inl SocketTimeout, es')
            | (Got chunk, es') \<Rightarrow> recv_body content_length (data @ chunk) es')
      else Some (Inr data, es))"

definition handle_post ::
  "'j env \<Rightarrow> world \<Rightarrow> string \<Rightarrow> (string \<rightharpoonup> string) \<Rightarrow> string \<Rightarrow> bool
     \<Rightarrow> ((exn \<times> world) + world) option" where
  "handle_post e w path hs body0 keep_alive =
     (if path \<noteq> ''/upload'' \<or> \<not> contains ''application/json'' (get_header hs ''Content-Type'' [])
      then Some (Inr (send (error_response e 415 ''Unsupported Media Type''
                              ''415 Unsupported Media Type'') w))
      else
        case py_int (get_header hs ''Content-Length'' ''0'') of
          None \<Rightarrow> Some (Inl (ValueError, w))
        | Some content_length \<Rightarrow>
            (case recv_body content_length body0 (inp w) of
               None \<Rightarrow> None
             | Some (Inl x, es') \<Rightarrow> Some (Inl (x, w\<lparr>inp := es'\<rparr>))
             | Some (Inr data, es') \<Rightarrow>
                 (case loads e data of
                    None \<Rightarrow>
                      Some (Inr (send (error_response e 400 ''Bad Request''
                                         ''400 Bad Request: Invalid JSON'') (w\<lparr>inp := es'\<rparr>)))
                  | Some json_data \<Rightarrow>
                      let filename = ''upload_'' @ utc_stamp e @ ''_'' @ random_id e @ ''.json'';
                          filepath = path_join UPLOADS_DIR filename;
                          resp_body =
                            ''{'' @ [DQ] @ ''status'' @ [DQ] @ '': '' @ [DQ] @ ''success'' @ [DQ]
                              @ '', '' @ [DQ] @ ''message'' @ [DQ] @ '': ''
                              @ [DQ] @ ''File created successfully'' @ [DQ]
                              @ '', '' @ [DQ] @ ''filepath'' @ [DQ] @ '': ''
                              @ [DQ] @ ''/uploads/'' @ filename @ [DQ] @ ''}'';
                          w1 = w\<lparr>inp := es',
                                 fs := (fs w)\<lparr>files := (files (fs w))(filepath \<mapsto> dump e json_data)\<rparr>\<rparr>
                      in Some (Inr (send (Resp \<lparr>status = 201, reason = ''Created'',
                                 headers =
                                   [(''Date'', http_date_now e),
                                    (''Content-Type'', ''application/json''),
                                    (''Content-Length'', str_nat (length resp_body))]
                                   @ keep_alive_headers keep_alive,
                                 body = resp_body\<rparr>) w1)))))"

section \<open>The connection handler\<close>

text \<open>
  One pass through the body of the \<^verbatim>\<open>while\<close> loop of \<^verbatim>\<open>handle_connection\<close>, up to
  the dispatch: \<open>Break\<close> is a \<^verbatim>\<open>break\<close>, \<open>Raise\<close> an exception that nothing in
  \<^verbatim>\<open>handle_connection\<close> catches, and \<open>Handled keep_alive\<close> the return of a handler,
  with the flag the loop tests next. Unpacking \<^verbatim>\<open>parts\<close> into three names raises
  \<^verbatim>\<open>ValueError\<close> when there are more than three.
\<close>

datatype outcome = Break world | Raise exn world | Handled bool world

definition loop_body :: "'j env \<Rightarrow> world \<Rightarrow> outcome option" where
  "loop_body e w =
     (let raw = fst (recv_headers (inp w));
          w1 = w\<lparr>inp := snd (recv_headers (inp w))\<rparr>
      in if raw = [] then Some (Break w1)
         else
           let request_line = fst (parse_headers raw);
               hs = snd (parse_headers raw)
           in if request_line = [] \<or> hs ''Host'' = None
              then Some (Break (send (error_response e 400 ''Bad Request'' ''400 Bad Request'') w1))
              else if get_header hs ''Host'' [] \<noteq> HOST @ '':'' @ str_nat PORT
                      \<and> get_header hs ''Host'' [] \<noteq> ''localhost:'' @ str_nat PORT
              then Some (Break (send (error_response e 403 ''Forbidden'' ''403 Forbidden'') w1))
              else
                let parts = split_ws request_line
                in if length parts < 3
                   then Some (Break (send (error_response e 400 ''Bad Request''
                                             ''400 Bad Request'') w1))
                   else
                     (case parts of
                        [method, path, version] \<Rightarrow>
                          let keep_alive =
                                (version = ''HTTP/1.1''
                                   \<and> lower (get_header hs ''Connection'' []) \<noteq> ''close'')
                          in if contains ''..'' path \<or> prefix ''/../'' path \<or> prefix ''//'' path
                             then Some (Break (send (error_response e 403 ''Forbidden''
                                                       ''403 Forbidden'') w1))
                             else if method = ''GET'' \<or> method = ''HEAD''
                             then (case handle_get_head e w1 path keep_alive method of
                                     Inl (x, w') \<Rightarrow> Some (Raise x w')
                                   | Inr w' \<Rightarrow> Some (Handled keep_alive w'))
                             else if method = ''POST''
                             then (case handle_post e w1 path hs
                                          (case split_once (CRLF @ CRLF) raw of
                                             None \<Rightarrow> []
                                           | Some (_, b) \<Rightarrow> b)
                                          keep_alive of
                                     None \<Rightarrow> None
                                   | Some (Inl (x, w')) \<Rightarrow> Some (Raise x w')
                                   | Some (Inr w') \<Rightarrow> Some (Handled keep_alive w'))
                             else Some (Break (send (error_response e 405 ''Method Not Allowed''
                                                       ''405 Method Not Allowed'') w1))
                      | _ \<Rightarrow> Some (Raise ValueError w1)))"

text \<open>
  The loop itself: at most \<^verbatim>\<open>MAX_REQUESTS_PER_CONN\<close> handled requests, and after each
  the keep-alive and idle tests. An exception leaves \<^verbatim>\<open>handle_connection\<close> before
  \<^verbatim>\<open>sock.close()\<close>; the worker that called it only logs it.
\<close>

function handle_loop :: "'j env \<Rightarrow> nat \<Rightarrow> world \<Rightarrow> ((exn \<times> world) + world) option" where
  "handle_loop e requests_handled w =
     (if requests_handled < MAX_REQUESTS_PER_CONN
      then (case loop_body e w of
              None \<Rightarrow> None
            | Some (Break w') \<Rightarrow> Some (Inr w')
            | Some (Raise x w') \<Rightarrow> Some (Inl (x, w'))
            | Some (Handled keep_alive w') \<Rightarrow>
                if \<not> keep_alive then Some (Inr w')
                else if idle e requests_handled > CONN_TIMEOUT then Some (Inr w')
                else handle_loop e (requests_handled + 1) w')
      else Some (Inr w))"
  by pat_completeness auto
termination
  by (relation "measure (\<lambda>(e, requests_handled, w). MAX_REQUESTS_PER_CONN - requests_handled)") auto

declare handle_loop.simps [simp del]

definition handle_connection :: "'j env \<Rightarrow> world \<Rightarrow> ((exn \<times> world) + world) option" where
  "handle_connection e w =
     (case handle_loop e 0 w of
        None \<Rightarrow> None
      | Some (Inl xw) \<Rightarrow> Some (Inl xw)
      | Some (Inr w') \<Rightarrow> Some (Inr (w'\<lparr>closed := True\<rparr>)))"






section \<open>A concrete deployment\<close>

text \<open>
  A serving root \<^verbatim>\<open>/srv/resources\<close> with an index page, a text file and the uploads
  directory that the server creates when it starts; a clock, a random generator and a
  JSON codec that accepts the empty object only; and a fresh connection on which the
  peer delivers the given events.
\<close>

definition demo_fs :: filesystem where
  "demo_fs =
     \<lparr>realpath = (\<lambda>p. ''/srv/'' @ p),
      isdir = (\<lambda>p. p = ''/srv/resources'' \<or> p = ''/srv/resources/uploads''),
      files = [''/srv/resources/index.html'' \<mapsto> ''<h1>hi</h1>'',
               ''/srv/resources/a.txt'' \<mapsto> ''hello'',
               ''/srv/resources/data.json'' \<mapsto> ''{}'']\<rparr>"

text \<open>
  The same root, where \<^verbatim>\<open>resources/leak.txt\<close> is a symbolic link to a file of the
  sibling directory \<^verbatim>\<open>/srv/resources_old\<close>.
\<close>

definition linked_fs :: filesystem where
  "linked_fs =
     \<lparr>realpath = (\<lambda>p. if p = ''resources/leak.txt'' then ''/srv/resources_old/leak.txt''
                       else ''/srv/'' @ p),
      isdir = (\<lambda>p. p = ''/srv/resources'' \<or> p = ''/srv/resources/uploads''
                       \<or> p = ''/srv/resources_old''),
      files = [''/srv/resources_old/leak.txt'' \<mapsto> ''secret'']\<rparr>"

definition demo_env :: "string env" where
  "demo_env =
     \<lparr>http_date_now = ''Wed, 04 Nov 2026 00:00:00 GMT'',
      utc_stamp = ''20261104_000000'',
      random_id = ''ab12'',
      loads = (\<lambda>s. if s = ''{}'' then Some s else None),
      dump = (\<lambda>j. j),
      idle = (\<lambda>i. 0)\<rparr>"

definition connect :: "filesystem \<Rightarrow> event list \<Rightarrow> world" where
  "connect f es = \<lparr>fs = f, inp = es, out = [], closed = False\<rparr>"

definition upload_headers :: "string \<Rightarrow> (string \<rightharpoonup> string)" where
  "upload_headers n = [''Content-Type'' \<mapsto> ''application/json'', ''Content-Length'' \<mapsto> n]"

definition host_line :: string where
  "host_line = ''Host: 127.0.0.1:8080''"



lemmas string_defs = split_ws_def is_space_def space_chars_def strip_def lstrip_slash_def
  lower_def lower_char_def upper_chars_def lower_chars_def digit_char_def str_nat.simps
  digit_val_def int_body_def py_int_def path_join_def basename_def splitext_ext_def
  suffix_to_prefix

lemmas server_defs = HOST_def PORT_def CONN_TIMEOUT_def MAX_REQUESTS_PER_CONN_def
  MAX_HEADER_SIZE_def RESOURCES_DIR_def UPLOADS_DIR_def path_exists_def safe_path_def
  send_def error_response_def recv_headers_def recv_headers_loop.simps parse_headers_def
  get_header_def keep_alive_headers_def chunks.simps handle_get_head_def handle_post_def
  loop_body_def handle_loop.simps handle_connection_def

lemmas demo_defs = demo_fs_def linked_fs_def demo_env_def connect_def host_line_def
  upload_headers_def

section \<open>HEAD of a file that is streamed\<close>

text \<open>
  C1. A HEAD request for an existing allow-listed file that is not HTML should get the
  200 headers and no body bytes. \<^verbatim>\<open>handle_get_head\<close> tests the method on the HTML
  branch only: on the streaming branch it writes the headers and then every chunk of the
  file, whatever the method. Here the five bytes of \<^verbatim>\<open>a.txt\<close> follow the headers of
  the answer to a HEAD request.
\<close>

theorem head_of_streamed_file_sends_body:
  "handle_connection demo_env
     (connect demo_fs [Seg (''HEAD /a.txt HTTP/1.1'' @ CRLF @ host_line @ CRLF @ CRLF)])
   = Some (Inr \<lparr>fs = demo_fs, inp = [],
        out = [Resp \<lparr>status = 200, reason = ''OK'',
                 headers =
                   [(''Date'', ''Wed, 04 Nov 2026 00:00:00 GMT''),
                    (''Content-Type'', ''application/octet-stream''),
                    (''Content-Disposition'', ''attachment; filename='' @ [DQ] @ ''a.txt'' @ [DQ]),
                    (''Content-Length'', ''5''),
                    (''Connection'', ''keep-alive''),
                    (''Keep-Alive'', ''timeout=30, max=100'')],
                 body = []\<rparr>,
               Chunk ''hello''],
        closed = True\<rparr>)"
  by (simp add: Let_def string_defs server_defs demo_defs)

section \<open>Error responses and the life of the connection\<close>

text \<open>
  C2. Every error response (400, 403, 404, 405, 415) should be the last thing on its
  connection. The errors that \<^verbatim>\<open>handle_connection\<close> answers itself are followed by
  \<^verbatim>\<open>break\<close>. The errors answered inside \<^verbatim>\<open>handle_get_head\<close> and
  \<^verbatim>\<open>handle_post\<close> carry \<^verbatim>\<open>Connection: close\<close> as well, but the handler only
  returns, and the loop goes on whenever the request negotiated keep-alive. Here a 404
  that announces \<^verbatim>\<open>Connection: close\<close> is followed by the answer to a second request
  read from the same connection.
\<close>

theorem request_served_after_error_response:
  "handle_connection demo_env
     (connect demo_fs
        [Seg (''GET /missing.html HTTP/1.1'' @ CRLF @ host_line @ CRLF @ CRLF),
         Seg (''GET /index.html HTTP/1.1'' @ CRLF @ host_line @ CRLF
                @ ''Connection: close'' @ CRLF @ CRLF)])
   = Some (Inr \<lparr>fs = demo_fs, inp = [],
        out = [Resp \<lparr>status = 404, reason = ''Not Found'',
                 headers =
                   [(''Date'', ''Wed, 04 Nov 2026 00:00:00 GMT''),
                    (''Connection'', ''close'')],
                 body = ''404 Not Found''\<rparr>,
               Resp \<lparr>status = 200, reason = ''OK'',
                 headers =
                   [(''Date'', ''Wed, 04 Nov 2026 00:00:00 GMT''),
                    (''Content-Type'', ''text/html; charset=utf-8''),
                    (''Content-Length'', ''11''),
                    (''Connection'', ''close''),
                    (''Keep-Alive'', [])],
                 body = ''<h1>hi</h1>''\<rparr>],
        closed = True\<rparr>)"
  by (simp add: Let_def string_defs server_defs demo_defs)

section \<open>Request lines with more than three tokens\<close>

text \<open>
  C4. A request line that is not made of exactly three tokens should be answered 400
  and the connection closed. The test before the unpacking is \<^verbatim>\<open>len(parts) < 3\<close>,
  so a line of four tokens reaches \<^verbatim>\<open>method, path, version = parts\<close>, which raises
  \<^verbatim>\<open>ValueError\<close>: nothing is sent, and \<^verbatim>\<open>sock.close()\<close> is not reached.
\<close>

theorem four_token_request_line_raises:
  "handle_connection demo_env
     (connect demo_fs [Seg (''GET / HTTP/1.1 extra'' @ CRLF @ host_line @ CRLF @ CRLF)])
   = Some (Inl (ValueError, \<lparr>fs = demo_fs, inp = [], out = [], closed = False\<rparr>))"
  by (simp add: Let_def string_defs server_defs demo_defs)

section \<open>Paths that leave the serving root\<close>

text \<open>
  C3. A canonical path outside the serving root should be answered 403. The test of
  \<^verbatim>\<open>safe_path\<close> is a string prefix test against the canonical root, with no path
  separator after it, so a canonical path in a sibling directory whose name begins with
  the root's name passes. Here the file behind a symbolic link, in
  \<^verbatim>\<open>/srv/resources_old\<close>, is served with status 200.
\<close>

theorem sibling_directory_file_is_served:
  "handle_connection demo_env
     (connect linked_fs
        [Seg (''GET /leak.txt HTTP/1.1'' @ CRLF @ host_line @ CRLF
                @ ''Connection: close'' @ CRLF @ CRLF)])
   = Some (Inr \<lparr>fs = linked_fs, inp = [],
        out = [Resp \<lparr>status = 200, reason = ''OK'',
                 headers =
                   [(''Date'', ''Wed, 04 Nov 2026 00:00:00 GMT''),
                    (''Content-Type'', ''application/octet-stream''),
                    (''Content-Disposition'',
                       ''attachment; filename='' @ [DQ] @ ''leak.txt'' @ [DQ]),
                    (''Content-Length'', ''6''),
                    (''Connection'', ''close''),
                    (''Keep-Alive'', [])],
                 body = []\<rparr>,
               Chunk ''secret''],
        closed = True\<rparr>)"
  by (simp add: Let_def string_defs server_defs demo_defs)

section \<open>The extension allow-list\<close>

text \<open>
  C5, as the code has it. For a GET or HEAD request whose path resolves (\<^verbatim>\<open>safe_path\<close>
  returns a non-empty path) to something that is not a directory, and whose extension,
  in lower case, is outside \<^verbatim>\<open>.html .png .jpg .jpeg .txt\<close>, the answer is 415 with
  \<^verbatim>\<open>Connection: close\<close> and nothing else is written. The file system is consulted
  for the canonical path and the directory test only: no hypothesis says whether the
  file exists, so the answer is 415, never 404, for an existing file as for a missing one.
\<close>

theorem unsupported_extension_is_415:
  assumes "safe_path (fs w) RESOURCES_DIR (if path = ''/'' then ''/index.html'' else path)
             = Some filepath"
      and "filepath \<noteq> []"
      and "\<not> isdir (fs w) filepath"
      and "lower (splitext_ext filepath) \<notin> set [''.html'', ''.png'', ''.jpg'', ''.jpeg'', ''.txt'']"
  shows "handle_get_head e w path keep_alive method
           = Inr (send (error_response e 415 ''Unsupported Media Type''
                          ''415 Unsupported Media Type'') w)"
  using assms by (simp add: handle_get_head_def Let_def)

text \<open>An existing file with the extension \<^verbatim>\<open>.json\<close> is answered 415.\<close>

theorem unsupported_extension_is_415_witness:
  "files demo_fs ''/srv/resources/data.json'' = Some ''{}''
   \<and> handle_get_head demo_env (connect demo_fs []) ''/data.json'' True ''GET''
       = Inr (send (error_response demo_env 415 ''Unsupported Media Type''
                      ''415 Unsupported Media Type'') (connect demo_fs []))"
proof -
  have 1: "safe_path (fs (connect demo_fs [])) RESOURCES_DIR
             (if ''/data.json'' = ''/'' then ''/index.html'' else ''/data.json'')
           = Some ''/srv/resources/data.json''"
    by (simp add: Let_def string_defs server_defs demo_defs)
  have 2: "''/srv/resources/data.json'' \<noteq> []" by simp
  have 3: "\<not> isdir (fs (connect demo_fs [])) ''/srv/resources/data.json''"
    by (simp add: demo_defs)
  have 4: "lower (splitext_ext ''/srv/resources/data.json'')
             \<notin> set [''.html'', ''.png'', ''.jpg'', ''.jpeg'', ''.txt'']"
    by (simp add: Let_def string_defs)
  have 5: "files demo_fs ''/srv/resources/data.json'' = Some ''{}''"
    by (simp add: demo_defs)
  show ?thesis
    using 5 unsupported_extension_is_415 [OF 1 2 3 4] by simp
qed

text \<open>
  Every resolved path that is a directory is answered 403, whatever its extension.
\<close>

lemma directory_is_403:
  assumes "safe_path (fs w) RESOURCES_DIR (if path = ''/'' then ''/index.html'' else path)
             = Some filepath"
      and "isdir (fs w) filepath"
  shows "handle_get_head e w path keep_alive method
           = Inr (send (error_response e 403 ''Forbidden'' ''403 Forbidden'') w)"
  using assms by (simp add: handle_get_head_def Let_def)

text \<open>
  C5 as stated, for every resolved path with an extension outside the list, fails on
  directories: the guard before the extension test answers them 403. The uploads
  directory, which the server creates itself, has no extension and is answered 403.
\<close>

theorem directory_is_403_not_415:
  "safe_path demo_fs RESOURCES_DIR ''/uploads'' = Some ''/srv/resources/uploads''
   \<and> lower (splitext_ext ''/srv/resources/uploads'')
         \<notin> set [''.html'', ''.png'', ''.jpg'', ''.jpeg'', ''.txt'']
   \<and> handle_get_head demo_env (connect demo_fs []) ''/uploads'' True ''GET''
       = Inr \<lparr>fs = demo_fs, inp = [],
           out = [Resp \<lparr>status = 403, reason = ''Forbidden'',
                    headers =
                      [(''Date'', ''Wed, 04 Nov 2026 00:00:00 GMT''),
                       (''Connection'', ''close'')],
                    body = ''403 Forbidden''\<rparr>],
           closed = False\<rparr>"
  by (simp add: Let_def string_defs server_defs demo_defs)

section \<open>The root path\<close>

text \<open>
  C10. \<^verbatim>\<open>handle_get_head\<close> replaces the path \<^verbatim>\<open>/\<close> by \<^verbatim>\<open>/index.html\<close> before
  anything else, so for every server state, keep-alive flag and method a request for
  \<^verbatim>\<open>/\<close> is handled exactly as a request for \<^verbatim>\<open>/index.html\<close>, and what it gets is
  the index page: when \<^verbatim>\<open>/index.html\<close> resolves under the serving root to an HTML
  path that is not a directory, the answer to \<^verbatim>\<open>/\<close> is 200 with the content of that
  file (the headers alone for a method other than GET) if the file exists, and 404 if it
  does not.
\<close>

theorem root_path_is_index_html:
  "handle_get_head e w ''/'' keep_alive method
     = handle_get_head e w ''/index.html'' keep_alive method
   \<and> (safe_path (fs w) RESOURCES_DIR ''/index.html'' = Some filepath
        \<and> filepath \<noteq> [] \<and> \<not> isdir (fs w) filepath
        \<and> lower (splitext_ext filepath) = ''.html''
      \<longrightarrow>
        (files (fs w) filepath = Some content \<longrightarrow>
           handle_get_head e w ''/'' keep_alive method
             = Inr (send (Resp \<lparr>status = 200, reason = ''OK'',
                     headers =
                       [(''Date'', http_date_now e),
                        (''Content-Type'', ''text/html; charset=utf-8''),
                        (''Content-Length'', str_nat (length content))]
                       @ keep_alive_headers keep_alive,
                     body = (if method = ''GET'' then content else [])\<rparr>) w))
        \<and> (files (fs w) filepath = None \<longrightarrow>
             handle_get_head e w ''/'' keep_alive method
               = Inr (send (error_response e 404 ''Not Found'' ''404 Not Found'') w)))"
  by (simp add: handle_get_head_def Let_def path_exists_def)

text \<open>
  Where the index page exists, GET \<^verbatim>\<open>/\<close> is answered with its eleven bytes; where
  it does not, HEAD \<^verbatim>\<open>/\<close> is answered 404.
\<close>

theorem root_path_is_index_html_witness:
  "handle_get_head demo_env (connect demo_fs []) ''/'' True ''GET''
     = Inr \<lparr>fs = demo_fs, inp = [],
         out = [Resp \<lparr>status = 200, reason = ''OK'',
                  headers =
                    [(''Date'', ''Wed, 04 Nov 2026 00:00:00 GMT''),
                     (''Content-Type'', ''text/html; charset=utf-8''),
                     (''Content-Length'', ''11''),
                     (''Connection'', ''keep-alive''),
                     (''Keep-Alive'', ''timeout=30, max=100'')],
                  body = ''<h1>hi</h1>''\<rparr>],
         closed = False\<rparr>
   \<and> handle_get_head demo_env (connect linked_fs []) ''/'' True ''HEAD''
       = Inr \<lparr>fs = linked_fs, inp = [],
           out = [Resp \<lparr>status = 404, reason = ''Not Found'',
                    headers =
                      [(''Date'', ''Wed, 04 Nov 2026 00:00:00 GMT''),
                       (''Connection'', ''close'')],
                    body = ''404 Not Found''\<rparr>],
           closed = False\<rparr>"
proof -
  have 1: "safe_path (fs (connect demo_fs [])) RESOURCES_DIR ''/index.html''
             = Some ''/srv/resources/index.html''
           \<and> ''/srv/resources/index.html'' \<noteq> []
           \<and> \<not> isdir (fs (connect demo_fs [])) ''/srv/resources/index.html''
           \<and> lower (splitext_ext ''/srv/resources/index.html'') = ''.html''"
    by (simp add: Let_def string_defs server_defs demo_defs)
  have 2: "files (fs (connect demo_fs [])) ''/srv/resources/index.html'' = Some ''<h1>hi</h1>''"
    by (simp add: demo_defs)
  have 3: "safe_path (fs (connect linked_fs [])) RESOURCES_DIR ''/index.html''
             = Some ''/srv/resources/index.html''
           \<and> ''/srv/resources/index.html'' \<noteq> []
           \<and> \<not> isdir (fs (connect linked_fs [])) ''/srv/resources/index.html''
           \<and> lower (splitext_ext ''/srv/resources/index.html'') = ''.html''"
    by (simp add: Let_def string_defs server_defs demo_defs)
  have 4: "files (fs (connect linked_fs [])) ''/srv/resources/index.html'' = None"
    by (simp add: demo_defs)
  from root_path_is_index_html
         [of demo_env "connect demo_fs []" True "''GET''" "''/srv/resources/index.html''"
             "''<h1>hi</h1>''"] 1 2
  have a: "handle_get_head demo_env (connect demo_fs []) ''/'' True ''GET''
     = Inr (send (Resp \<lparr>status = 200, reason = ''OK'',
                     headers =
                       [(''Date'', http_date_now demo_env),
                        (''Content-Type'', ''text/html; charset=utf-8''),
                        (''Content-Length'', str_nat (length ''<h1>hi</h1>''))]
                       @ keep_alive_headers True,
                     body = (if ''GET'' = ''GET'' then ''<h1>hi</h1>'' else [])\<rparr>)
              (connect demo_fs []))"
    by blast
  from root_path_is_index_html
         [of demo_env "connect linked_fs []" True "''HEAD''" "''/srv/resources/index.html''"] 3 4
  have b: "handle_get_head demo_env (connect linked_fs []) ''/'' True ''HEAD''
     = Inr (send (error_response demo_env 404 ''Not Found'' ''404 Not Found'')
              (connect linked_fs []))"
    by blast
  show ?thesis
    unfolding a b
    by (simp add: send_def error_response_def keep_alive_headers_def connect_def demo_env_def
          str_nat.simps digit_char_def)
qed

section \<open>Reading the upload body\<close>







section \<open>Uploads that are not JSON\<close>

text \<open>
  C7. For a \<^verbatim>\<open>POST /upload\<close> with a JSON content type whose accumulated body
  \<open>data\<close> does not parse, the upload action answers 400 and returns with the file
  system as it was: nothing is written under the uploads directory.
\<close>

theorem invalid_json_writes_nothing:
  assumes "contains ''application/json'' (get_header hs ''Content-Type'' [])"
      and "py_int (get_header hs ''Content-Length'' ''0'') = Some n"
      and "recv_body n body0 (inp w) = Some (Inr data, es')"
      and "loads e data = None"
  shows "\<exists>w'. handle_post e w ''/upload'' hs body0 keep_alive = Some (Inr w')
              \<and> fs w' = fs w
              \<and> out w' = out w @ [error_response e 400 ''Bad Request''
                                     ''400 Bad Request: Invalid JSON'']
              \<and> inp w' = es' \<and> closed w' = closed w"
  using assms by (simp add: handle_post_def send_def)

text \<open>The one byte \<^verbatim>\<open>{\<close> is not JSON: 400, and the files are untouched.\<close>

theorem invalid_json_writes_nothing_witness:
  "\<exists>w'. handle_post demo_env (connect demo_fs []) ''/upload'' (upload_headers ''1'') ''{'' True
           = Some (Inr w')
        \<and> fs w' = fs (connect demo_fs [])
        \<and> out w' = out (connect demo_fs [])
              @ [error_response demo_env 400 ''Bad Request'' ''400 Bad Request: Invalid JSON'']
        \<and> inp w' = [] \<and> closed w' = closed (connect demo_fs [])"
proof -
  have ct: "contains ''application/json'' (get_header (upload_headers ''1'') ''Content-Type'' [])"
    by (simp add: get_header_def upload_headers_def)
  have cl: "py_int (get_header (upload_headers ''1'') ''Content-Length'' ''0'') = Some 1"
    by (simp add: get_header_def upload_headers_def string_defs)
  have rb: "recv_body 1 ''{'' (inp (connect demo_fs [])) = Some (Inr ''{'', [])"
    by (simp add: connect_def recv_body.simps)
  have ld: "loads demo_env ''{'' = None"
    by (simp add: demo_env_def)
  from invalid_json_writes_nothing [OF ct cl rb ld, of True]
  show ?thesis .
qed

section \<open>Responses of a connection\<close>













section \<open>The limit on requests per connection\<close>






section \<open>The keep-alive flag\<close>



end
